theory Spec2Isabelle
  imports Main "HOL-Library.Word"
begin

section \<open>The chat input component \<open>QuestionInput\<close>\<close>

text \<open>
  A shallow embedding of \<^verbatim>\<open>frontend/src/components/QuestionInput/QuestionInput.tsx\<close>
  and of the second revision of the same file found beside it (\<^verbatim>\<open>unnamed/part_000\<close>).
  The component owns five \<^verbatim>\<open>useState\<close> cells; every handler is a function from
  the state before the handler to the state after it, together with the list of calls
  the handler made to the caller's \<^verbatim>\<open>onSend\<close> callback.
\<close>

subsection \<open>JavaScript strings\<close>

text \<open>
  A JavaScript string is a sequence of 16-bit code units. \<open>js\<close> reads an ASCII
  literal of the source as such a sequence.
\<close>

type_synonym code_unit = "16 word"
type_synonym js_string = "code_unit list"

definition js :: "string \<Rightarrow> js_string" where
  "js lit = map of_char lit"

text \<open>
  \<^verbatim>\<open>String.prototype.trim\<close> removes, at both ends, the code units that ECMAScript
  calls WhiteSpace or LineTerminator. All of them lie in the Basic Multilingual Plane,
  so trimming works on single code units.
\<close>

definition isWhiteSpace :: "code_unit \<Rightarrow> bool" where
  "isWhiteSpace c \<longleftrightarrow>
     c \<in> set [0x0009, 0x000A, 0x000B, 0x000C, 0x000D, 0x0020, 0x00A0, 0x1680,
              0x2000, 0x2001, 0x2002, 0x2003, 0x2004, 0x2005, 0x2006, 0x2007,
              0x2008, 0x2009, 0x200A, 0x2028, 0x2029, 0x202F, 0x205F, 0x3000, 0xFEFF]"

definition trim :: "js_string \<Rightarrow> js_string" where
  "trim s = rev (dropWhile isWhiteSpace (rev (dropWhile isWhiteSpace s)))"

text \<open>Truthiness of the values the component tests: a string is truthy unless it is
  empty; \<^verbatim>\<open>null\<close> and \<^verbatim>\<open>undefined\<close> (here \<open>None\<close>) are falsy; an object is truthy.\<close>

definition truthy_string :: "js_string \<Rightarrow> bool" where
  "truthy_string s \<longleftrightarrow> s \<noteq> []"

definition truthy_optional_bool :: "bool option \<Rightarrow> bool" where
  "truthy_optional_bool v = (case v of None \<Rightarrow> False | Some b \<Rightarrow> b)"

definition truthy_nullable_object :: "'a option \<Rightarrow> bool" where
  "truthy_nullable_object v = (case v of None \<Rightarrow> False | Some _ \<Rightarrow> True)"

subsection \<open>Data\<close>

text \<open>
  Modelled from the spec: the result type of \<^verbatim>\<open>processDocumentWithAI\<close>, which lives
  in \<^verbatim>\<open>../../api\<close>: \<^verbatim>\<open>{ filename: string, enhanced_content: { summary: string,
  original_text: string } }\<close>.
\<close>

record enhanced_content =
  summary :: js_string
  original_text :: js_string

record processed_document =
  filename :: js_string
  enhanced_content :: enhanced_content

text \<open>The object stored by \<^verbatim>\<open>setUploadedFile\<close>: the processed document spread, then the
  two added fields.\<close>

record uploaded_file = processed_document +
  display_summary :: js_string
  full_content :: js_string

text \<open>
  Modelled from the spec: \<^verbatim>\<open>ChatMessage["content"]\<close> of \<^verbatim>\<open>../../api\<close>, the payload of
  the dispatch callback: a plain string, or an ordered list of parts as the array
  literal of \<^verbatim>\<open>sendQuestion\<close> builds it.
\<close>

datatype content_part =
  TextPart js_string
| ImageUrlPart js_string

datatype content =
  PlainText js_string
| Parts "content_part list"

text \<open>One call of \<^verbatim>\<open>onSend\<close>: with the payload alone, or with payload and identifier.\<close>

datatype onSend_call =
  OnSend1 content
| OnSend2 content js_string

fun payload_of :: "onSend_call \<Rightarrow> content" where
  "payload_of (OnSend1 c) = c"
| "payload_of (OnSend2 c _) = c"

fun arity :: "onSend_call \<Rightarrow> nat" where
  "arity (OnSend1 _) = 1"
| "arity (OnSend2 _ _) = 2"

text \<open>The props, without the callback (its calls are the output of the model).\<close>

record props =
  disabled :: bool
  placeholder :: "js_string option"
  clearOnSend :: "bool option"
  conversationId :: "js_string option"

text \<open>The five state cells.\<close>

record state =
  question :: js_string
  base64Image :: "js_string option"
  isUploading :: bool
  uploadError :: "js_string option"
  uploadedFile :: "uploaded_file option"

definition initial_state :: state where
  "initial_state =
     \<lparr>question = [], base64Image = None, isUploading = False,
      uploadError = None, uploadedFile = None\<rparr>"

subsection \<open>\<^verbatim>\<open>sendQuestion\<close>\<close>

text \<open>The guard of \<^verbatim>\<open>sendQuestion\<close>, also computed at every render as
  \<^verbatim>\<open>sendQuestionDisabled\<close>.\<close>

definition sendQuestionDisabled :: "props \<Rightarrow> state \<Rightarrow> bool" where
  "sendQuestionDisabled p s \<longleftrightarrow>
     disabled p \<or> (\<not> truthy_string (trim (question s)) \<and> \<not> truthy_nullable_object (uploadedFile s))"

text \<open>The local \<^verbatim>\<open>questionContent\<close>: the draft, or the template literal around it.\<close>

definition questionContent :: "state \<Rightarrow> js_string" where
  "questionContent s =
     (case uploadedFile s of
        None \<Rightarrow> question s
      | Some f \<Rightarrow>
          js ''File: '' @ filename f @ js ''\<newline>\<newline>'' @ full_content f
            @ js ''\<newline>\<newline>User Question: '' @ question s)"

text \<open>The local \<^verbatim>\<open>questionTest\<close> of \<^verbatim>\<open>QuestionInput.tsx\<close>: two parts when
  \<^verbatim>\<open>base64Image\<close> is truthy.\<close>

definition questionTest :: "state \<Rightarrow> content" where
  "questionTest s =
     (case base64Image s of
        None \<Rightarrow> PlainText (questionContent s)
      | Some img \<Rightarrow>
          if truthy_string img
          then Parts [TextPart (questionContent s), ImageUrlPart img]
          else PlainText (questionContent s))"

text \<open>The local \<^verbatim>\<open>questionTest\<close> of the second revision: always the text.\<close>

definition questionTest_part_000 :: "state \<Rightarrow> content" where
  "questionTest_part_000 s = PlainText (questionContent s)"

text \<open>The dispatch. The second conjunct of the source's test,
  \<^verbatim>\<open>questionTest !== undefined\<close>, holds of every \<open>content\<close>.\<close>

definition dispatch :: "props \<Rightarrow> content \<Rightarrow> onSend_call list" where
  "dispatch p qt =
     (case conversationId p of
        None \<Rightarrow> [OnSend1 qt]
      | Some cid \<Rightarrow> if truthy_string cid then [OnSend2 qt cid] else [OnSend1 qt])"

definition sendQuestion :: "props \<Rightarrow> state \<Rightarrow> onSend_call list \<times> state" where
  "sendQuestion p s =
     (if disabled p \<or> (\<not> truthy_string (trim (question s)) \<and> \<not> truthy_nullable_object (uploadedFile s))
      then ([], s)
      else
        (dispatch p (questionTest s),
         if truthy_optional_bool (clearOnSend p)
         then s\<lparr>question := [], uploadedFile := None, base64Image := None\<rparr>
         else s))"

definition sendQuestion_part_000 :: "props \<Rightarrow> state \<Rightarrow> onSend_call list \<times> state" where
  "sendQuestion_part_000 p s =
     (if disabled p \<or> (\<not> truthy_string (trim (question s)) \<and> \<not> truthy_nullable_object (uploadedFile s))
      then ([], s)
      else
        (dispatch p (questionTest_part_000 s),
         if truthy_optional_bool (clearOnSend p)
         then s\<lparr>question := [], uploadedFile := None\<rparr>
         else s))"

subsection \<open>The asynchronous collaborators\<close>

text \<open>
  \<^verbatim>\<open>resizeImage\<close> and \<^verbatim>\<open>processDocumentWithAI\<close> are awaited: the promise resolves with
  a value or rejects with whatever was thrown. The handlers below take the settlement
  as a parameter. Of a thrown value the code reads only whether it is an instance of
  \<^verbatim>\<open>Error\<close> and, if so, its \<^verbatim>\<open>message\<close>.
\<close>

datatype thrown =
  ErrorInstance js_string
| OtherValue

datatype 'a settled =
  Resolved 'a
| Rejected thrown

text \<open>\<^verbatim>\<open>event.target.files?.[0]\<close> is an opaque handle, or absent.\<close>

datatype blob = Blob nat

subsection \<open>\<^verbatim>\<open>handleImageUpload\<close> and \<^verbatim>\<open>convertToBase64\<close>\<close>

text \<open>The parameter \<open>resized\<close> is the settlement of \<^verbatim>\<open>resizeImage(file, 800, 800)\<close>. A
  rejection is logged with \<^verbatim>\<open>console.error\<close> and leaves the state as it was.\<close>

definition convertToBase64 :: "js_string settled \<Rightarrow> state \<Rightarrow> state" where
  "convertToBase64 resized s =
     (case resized of
        Resolved resizedBase64 \<Rightarrow> s\<lparr>base64Image := Some resizedBase64\<rparr>
      | Rejected _ \<Rightarrow> s)"

definition handleImageUpload :: "blob option \<Rightarrow> js_string settled \<Rightarrow> state \<Rightarrow> state" where
  "handleImageUpload file resized s =
     (case file of None \<Rightarrow> s | Some _ \<Rightarrow> convertToBase64 resized s)"

subsection \<open>\<^verbatim>\<open>handleFileUpload\<close>\<close>

text \<open>
  The handler runs in two parts, separated by the \<^verbatim>\<open>await\<close>: the two setters before
  the call of \<^verbatim>\<open>processDocumentWithAI\<close>, and the \<^verbatim>\<open>try\<close>/\<open>catch\<close>/\<open>finally\<close> after
  the promise has settled. Other handlers may run in between.
\<close>

definition handleFileUpload_begin :: "state \<Rightarrow> state" where
  "handleFileUpload_begin s = s\<lparr>isUploading := True, uploadError := None\<rparr>"

definition error_text :: "thrown \<Rightarrow> js_string" where
  "error_text e =
     (case e of
        ErrorInstance message \<Rightarrow> message
      | OtherValue \<Rightarrow> js ''Document processing failed'')"

definition handleFileUpload_settle :: "processed_document settled \<Rightarrow> state \<Rightarrow> state" where
  "handleFileUpload_settle settled s =
     (case settled of
        Resolved processedDocument \<Rightarrow>
          s\<lparr>uploadedFile := Some
              \<lparr>filename = filename processedDocument,
               enhanced_content = enhanced_content processedDocument,
               display_summary = summary (enhanced_content processedDocument),
               full_content = original_text (enhanced_content processedDocument)\<rparr>\<rparr>
      | Rejected e \<Rightarrow> s\<lparr>uploadError := Some (error_text e)\<rparr>)
     \<lparr>isUploading := False\<rparr>"

text \<open>The whole handler, when nothing else runs during the \<^verbatim>\<open>await\<close>.\<close>

definition handleFileUpload ::
  "blob option \<Rightarrow> (blob \<Rightarrow> processed_document settled) \<Rightarrow> state \<Rightarrow> state" where
  "handleFileUpload file processDocumentWithAI s =
     (case file of
        None \<Rightarrow> s
      | Some f \<Rightarrow> handleFileUpload_settle (processDocumentWithAI f) (handleFileUpload_begin s))"

subsection \<open>The remaining handlers\<close>

record keyboard_event =
  key :: js_string
  shiftKey :: bool
  isComposing :: "bool option"

definition onEnterPress :: "props \<Rightarrow> keyboard_event \<Rightarrow> state \<Rightarrow> onSend_call list \<times> state" where
  "onEnterPress p ev s =
     (if key ev = js ''Enter'' \<and> \<not> shiftKey ev \<and> \<not> (isComposing ev = Some True)
      then sendQuestion p s
      else ([], s))"

definition onQuestionChange :: "js_string option \<Rightarrow> state \<Rightarrow> state" where
  "onQuestionChange newValue s =
     s\<lparr>question := (case newValue of
                       None \<Rightarrow> []
                     | Some v \<Rightarrow> if truthy_string v then v else [])\<rparr>"

text \<open>The \<^verbatim>\<open>onKeyDown\<close> of the send button.\<close>

definition sendButton_onKeyDown :: "props \<Rightarrow> js_string \<Rightarrow> state \<Rightarrow> onSend_call list \<times> state" where
  "sendButton_onKeyDown p k s =
     (if k = js ''Enter'' \<or> k = js '' '' then sendQuestion p s else ([], s))"

subsection \<open>The component as a transition system\<close>

text \<open>One event per handler the rendered elements are wired to; the continuation of
  \<^verbatim>\<open>handleFileUpload\<close> after its \<^verbatim>\<open>await\<close> is an event of its own. A step is the run
  of the handler together with the render that follows it, so the next handler reads the
  cells as the setters of this one left them. What a handler reads before that render is
  the subject of the section on renders below.\<close>

datatype event =
  ImageInputChange "blob option" "js_string settled"
| FileInputChange "blob option"
| DocumentSettled "processed_document settled"
| TextFieldChange "js_string option"
| TextFieldKeyDown keyboard_event
| SendButtonClick
| SendButtonKeyDown js_string

fun step :: "props \<Rightarrow> event \<Rightarrow> state \<Rightarrow> onSend_call list \<times> state" where
  "step p (ImageInputChange file resized) s = ([], handleImageUpload file resized s)"
| "step p (FileInputChange file) s =
     ([], case file of None \<Rightarrow> s | Some _ \<Rightarrow> handleFileUpload_begin s)"
| "step p (DocumentSettled settled) s = ([], handleFileUpload_settle settled s)"
| "step p (TextFieldChange newValue) s = ([], onQuestionChange newValue s)"
| "step p (TextFieldKeyDown ev) s = onEnterPress p ev s"
| "step p SendButtonClick s = sendQuestion p s"
| "step p (SendButtonKeyDown k) s = sendButton_onKeyDown p k s"

text \<open>The states a sequence of events leads through, the first one included.\<close>

fun run :: "props \<Rightarrow> event list \<Rightarrow> state \<Rightarrow> state list" where
  "run p [] s = [s]"
| "run p (ev # evs) s = s # run p evs (snd (step p ev s))"

text \<open>The texts a payload carries, in order.\<close>

fun texts_of :: "content \<Rightarrow> js_string list" where
  "texts_of (PlainText t) = [t]"
| "texts_of (Parts ps) = concat (map (\<lambda>part. case part of TextPart t \<Rightarrow> [t] | ImageUrlPart _ \<Rightarrow> []) ps)"

subsection \<open>Whether an image is attached\<close>

text \<open>The component's own test for an attached image: \<^verbatim>\<open>base64Image ?\<close> in
  \<^verbatim>\<open>sendQuestion\<close> and \<^verbatim>\<open>base64Image &&\<close> before the preview of \<^verbatim>\<open>QuestionInput.tsx\<close>.\<close>

definition imageAttached :: "state \<Rightarrow> bool" where
  "imageAttached s = (case base64Image s of None \<Rightarrow> False | Some img \<Rightarrow> truthy_string img)"

subsection \<open>Renders and setters\<close>

text \<open>
  The five cells are \<^verbatim>\<open>const\<close> bindings of one render. A setter does not change them: it
  enqueues an update, and the next render starts from the cells with the queued updates
  applied in order. A handler that runs twice before the next render reads the same
  cells twice.
\<close>

datatype setter =
  SetQuestion js_string
| SetBase64Image "js_string option"
| SetIsUploading bool
| SetUploadError "js_string option"
| SetUploadedFile "uploaded_file option"

fun apply_setter :: "setter \<Rightarrow> state \<Rightarrow> state" where
  "apply_setter (SetQuestion v) s = s\<lparr>question := v\<rparr>"
| "apply_setter (SetBase64Image v) s = s\<lparr>base64Image := v\<rparr>"
| "apply_setter (SetIsUploading v) s = s\<lparr>isUploading := v\<rparr>"
| "apply_setter (SetUploadError v) s = s\<lparr>uploadError := v\<rparr>"
| "apply_setter (SetUploadedFile v) s = s\<lparr>uploadedFile := v\<rparr>"

definition apply_setters :: "setter list \<Rightarrow> state \<Rightarrow> state" where
  "apply_setters q s = fold apply_setter q s"

text \<open>One run of \<^verbatim>\<open>sendQuestion\<close> on the cells of the current render: the calls of the
  callback and the setter calls, in the order of the source.\<close>

definition sendQuestion_effects :: "props \<Rightarrow> state \<Rightarrow> onSend_call list \<times> setter list" where
  "sendQuestion_effects p s =
     (if disabled p \<or> (\<not> truthy_string (trim (question s)) \<and> \<not> truthy_nullable_object (uploadedFile s))
      then ([], [])
      else
        (dispatch p (questionTest s),
         if truthy_optional_bool (clearOnSend p)
         then [SetQuestion [], SetUploadedFile None, SetBase64Image None]
         else []))"

definition sendQuestion_part_000_effects :: "props \<Rightarrow> state \<Rightarrow> onSend_call list \<times> setter list" where
  "sendQuestion_part_000_effects p s =
     (if disabled p \<or> (\<not> truthy_string (trim (question s)) \<and> \<not> truthy_nullable_object (uploadedFile s))
      then ([], [])
      else
        (dispatch p (questionTest_part_000 s),
         if truthy_optional_bool (clearOnSend p)
         then [SetQuestion [], SetUploadedFile None]
         else []))"

text \<open>The mounted component between two renders: the cells every handler of the current
  render reads, and the updates queued so far.\<close>

record component =
  cells :: state
  queued :: "setter list"

definition invoke_sendQuestion :: "props \<Rightarrow> component \<Rightarrow> onSend_call list \<times> component" where
  "invoke_sendQuestion p c =
     (fst (sendQuestion_effects p (cells c)),
      c\<lparr>queued := queued c @ snd (sendQuestion_effects p (cells c))\<rparr>)"

definition invoke_sendQuestion_part_000 ::
  "props \<Rightarrow> component \<Rightarrow> onSend_call list \<times> component" where
  "invoke_sendQuestion_part_000 p c =
     (fst (sendQuestion_part_000_effects p (cells c)),
      c\<lparr>queued := queued c @ snd (sendQuestion_part_000_effects p (cells c))\<rparr>)"

definition rerender :: "component \<Rightarrow> component" where
  "rerender c = \<lparr>cells = apply_setters (queued c) (cells c), queued = []\<rparr>"

subsection \<open>The second revision as a transition system\<close>

text \<open>In the second revision the image input and the preview are inside a JSX comment:
  no handler runs on an image event. The other elements are wired as before, with the
  revision's own \<^verbatim>\<open>sendQuestion\<close>.\<close>

fun step_part_000 :: "props \<Rightarrow> event \<Rightarrow> state \<Rightarrow> onSend_call list \<times> state" where
  "step_part_000 p (ImageInputChange file resized) s = ([], s)"
| "step_part_000 p (FileInputChange file) s =
     ([], case file of None \<Rightarrow> s | Some _ \<Rightarrow> handleFileUpload_begin s)"
| "step_part_000 p (DocumentSettled settled) s = ([], handleFileUpload_settle settled s)"
| "step_part_000 p (TextFieldChange newValue) s = ([], onQuestionChange newValue s)"
| "step_part_000 p (TextFieldKeyDown ev) s =
     (if key ev = js ''Enter'' \<and> \<not> shiftKey ev \<and> \<not> (isComposing ev = Some True)
      then sendQuestion_part_000 p s
      else ([], s))"
| "step_part_000 p SendButtonClick s = sendQuestion_part_000 p s"
| "step_part_000 p (SendButtonKeyDown k) s =
     (if k = js ''Enter'' \<or> k = js '' '' then sendQuestion_part_000 p s else ([], s))"

fun run_part_000 :: "props \<Rightarrow> event list \<Rightarrow> state \<Rightarrow> state list" where
  "run_part_000 p [] s = [s]"
| "run_part_000 p (ev # evs) s = s # run_part_000 p evs (snd (step_part_000 p ev s))"

section \<open>Example inputs\<close>

text \<open>Concrete props, states and event sequences at which the properties below are
  evaluated.\<close>

definition example_document :: uploaded_file where
  "example_document =
     \<lparr>filename = js ''a.txt'',
      enhanced_content = \<lparr>summary = js ''greeting'', original_text = js ''hello''\<rparr>,
      display_summary = js ''greeting'',
      full_content = js ''hello''\<rparr>"

definition example_props :: props where
  "example_props =
     \<lparr>disabled = False, placeholder = None, clearOnSend = Some True,
      conversationId = Some (js ''c1'')\<rparr>"

definition example_state :: state where
  "example_state =
     \<lparr>question = js ''what is this?'', base64Image = None, isUploading = False,
      uploadError = None, uploadedFile = Some example_document\<rparr>"

definition blank_state :: state where
  "blank_state =
     \<lparr>question = js '' \<newline> '', base64Image = Some (js ''data:image/png;base64,AAAA''),
      isUploading = False, uploadError = None, uploadedFile = None\<rparr>"

definition image_state :: state where
  "image_state =
     \<lparr>question = js ''hi'', base64Image = Some (js ''data:image/png;base64,AAAA''),
      isUploading = False, uploadError = None, uploadedFile = None\<rparr>"

definition empty_id_props :: props where
  "empty_id_props =
     \<lparr>disabled = False, placeholder = None, clearOnSend = None, conversationId = Some []\<rparr>"

definition typed_state :: state where
  "typed_state =
     \<lparr>question = js ''hi'', base64Image = None, isUploading = False,
      uploadError = None, uploadedFile = None\<rparr>"

definition disabled_props :: props where
  "disabled_props =
     \<lparr>disabled = True, placeholder = None, clearOnSend = None, conversationId = None\<rparr>"

definition padded_state :: state where
  "padded_state =
     \<lparr>question = js ''  hi '', base64Image = None, isUploading = False,
      uploadError = None, uploadedFile = None\<rparr>"

definition rendered_example :: component where
  "rendered_example = \<lparr>cells = example_state, queued = []\<rparr>"

definition empty_message_processor :: "blob \<Rightarrow> processed_document settled" where
  "empty_message_processor b = Rejected (ErrorInstance [])"

definition failing_processor :: "blob \<Rightarrow> processed_document settled" where
  "failing_processor b = Rejected (ErrorInstance (js ''boom''))"

definition upload_events :: "event list" where
  "upload_events =
     [FileInputChange (Some (Blob 0)),
      DocumentSettled (Rejected OtherValue),
      TextFieldChange (Some (js ''hi'')),
      SendButtonClick,
      FileInputChange (Some (Blob 1))]"

section \<open>Properties\<close>

subsection \<open>Text assembly\<close>

lemma dispatch_single: "\<exists>c. dispatch p qt = [c] \<and> payload_of c = qt"
  by (simp add: dispatch_def split: option.split)

lemma texts_of_questionTest: "texts_of (questionTest s) = [questionContent s]"
  by (simp add: questionTest_def split: option.split)

lemma sendQuestion_calls:
  "fst (sendQuestion p s) = [] \<or> fst (sendQuestion p s) = dispatch p (questionTest s)"
  by (simp add: sendQuestion_def)

lemma sendQuestion_part_000_calls:
  "fst (sendQuestion_part_000 p s) = []
   \<or> fst (sendQuestion_part_000 p s) = dispatch p (questionTest_part_000 s)"
  by (simp add: sendQuestion_part_000_def)

lemma sendQuestion_texts:
  "c \<in> set (fst (sendQuestion p s)) \<Longrightarrow> texts_of (payload_of c) = [questionContent s]"
  using sendQuestion_calls [of p s] dispatch_single [of p "questionTest s"]
  by (auto simp add: texts_of_questionTest)

lemma sendQuestion_part_000_texts:
  "c \<in> set (fst (sendQuestion_part_000 p s)) \<Longrightarrow> texts_of (payload_of c) = [questionContent s]"
  using sendQuestion_part_000_calls [of p s] dispatch_single [of p "questionTest_part_000 s"]
  by (auto simp add: questionTest_part_000_def)

text \<open>
  Claim C1. With a document attached, whatever the draft (empty or untrimmed alike) and
  whatever the props, the text \<^verbatim>\<open>sendQuestion\<close> assembles is \<^verbatim>\<open>"File: "\<close>, the filename,
  two newlines, the full content, two newlines, \<^verbatim>\<open>"User Question: "\<close> and the draft as it
  stands, in this order: every call of the callback that \<^verbatim>\<open>sendQuestion\<close> makes carries
  exactly this text, in both revisions, and unless the component is disabled there is
  such a call. For the file \<^verbatim>\<open>a.txt\<close> with content \<^verbatim>\<open>hello\<close> and the draft
  \<^verbatim>\<open>what is this?\<close> the text is
  \<^verbatim>\<open>"File: a.txt\n\nhello\n\nUser Question: what is this?"\<close>.
\<close>

theorem C1_assembled_text:
  assumes "uploadedFile s = Some f"
  shows "questionContent s =
           js ''File: '' @ filename f @ js ''\<newline>\<newline>'' @ full_content f
             @ js ''\<newline>\<newline>User Question: '' @ question s
         \<and> (\<forall>c \<in> set (fst (sendQuestion p s)).
              texts_of (payload_of c) =
                [js ''File: '' @ filename f @ js ''\<newline>\<newline>'' @ full_content f
             @ js ''\<newline>\<newline>User Question: '' @ question s])
         \<and> (\<forall>c \<in> set (fst (sendQuestion_part_000 p s)).
              texts_of (payload_of c) =
                [js ''File: '' @ filename f @ js ''\<newline>\<newline>'' @ full_content f
             @ js ''\<newline>\<newline>User Question: '' @ question s])
         \<and> (\<not> disabled p \<longrightarrow>
              fst (sendQuestion p s) \<noteq> [] \<and> fst (sendQuestion_part_000 p s) \<noteq> [])
         \<and> (filename f = js ''a.txt'' \<and> full_content f = js ''hello''
              \<and> question s = js ''what is this?'' \<longrightarrow>
            questionContent s = js ''File: a.txt\<newline>\<newline>hello\<newline>\<newline>User Question: what is this?''
            \<and> (\<forall>c \<in> set (fst (sendQuestion p s)). texts_of (payload_of c) = [js ''File: a.txt\<newline>\<newline>hello\<newline>\<newline>User Question: what is this?''])
            \<and> (\<forall>c \<in> set (fst (sendQuestion_part_000 p s)).
                 texts_of (payload_of c) = [js ''File: a.txt\<newline>\<newline>hello\<newline>\<newline>User Question: what is this?'']))"
proof -
  have eq: "questionContent s =
           js ''File: '' @ filename f @ js ''\<newline>\<newline>'' @ full_content f
             @ js ''\<newline>\<newline>User Question: '' @ question s"
    using assms by (simp add: questionContent_def)
  have all1: "\<forall>c \<in> set (fst (sendQuestion p s)). texts_of (payload_of c) = [questionContent s]"
    using sendQuestion_texts by blast
  have all2: "\<forall>c \<in> set (fst (sendQuestion_part_000 p s)).
                texts_of (payload_of c) = [questionContent s]"
    using sendQuestion_part_000_texts by blast
  have some: "fst (sendQuestion p s) \<noteq> [] \<and> fst (sendQuestion_part_000 p s) \<noteq> []"
    if "\<not> disabled p"
    using that assms dispatch_single [of p "questionTest s"]
      dispatch_single [of p "questionTest_part_000 s"]
    by (auto simp add: sendQuestion_def sendQuestion_part_000_def truthy_nullable_object_def)
  have lit: "questionContent s = js ''File: a.txt\<newline>\<newline>hello\<newline>\<newline>User Question: what is this?''"
    if "filename f = js ''a.txt'' \<and> full_content f = js ''hello''
          \<and> question s = js ''what is this?''"
    using that by (simp add: eq js_def)
  show ?thesis
    using eq [symmetric] all1 all2 some lit by simp
qed

theorem C1_assembled_text_witness:
  "uploadedFile example_state = Some example_document
   \<and> OnSend2 (PlainText (js ''File: a.txt\<newline>\<newline>hello\<newline>\<newline>User Question: what is this?'')) (js ''c1'')
       \<in> set (fst (sendQuestion example_props example_state))
   \<and> \<not> disabled example_props
   \<and> fst (sendQuestion example_props example_state) \<noteq> []
   \<and> questionContent example_state = js ''File: a.txt\<newline>\<newline>hello\<newline>\<newline>User Question: what is this?''
   \<and> texts_of (payload_of (OnSend2 (PlainText (js ''File: a.txt\<newline>\<newline>hello\<newline>\<newline>User Question: what is this?'')) (js ''c1'')))
       = [js ''File: a.txt\<newline>\<newline>hello\<newline>\<newline>User Question: what is this?'']"
proof -
  have h: "uploadedFile example_state = Some example_document"
    by (simp add: example_state_def)
  have e: "\<not> disabled example_props"
    by (simp add: example_props_def)
  have v: "filename example_document = js ''a.txt'' \<and> full_content example_document = js ''hello''
              \<and> question example_state = js ''what is this?''"
    by (simp add: example_document_def example_state_def)
  have m: "OnSend2 (PlainText (js ''File: a.txt\<newline>\<newline>hello\<newline>\<newline>User Question: what is this?'')) (js ''c1'')
       \<in> set (fst (sendQuestion example_props example_state))"
    by (simp add: sendQuestion_def example_props_def example_state_def example_document_def
        truthy_nullable_object_def truthy_string_def dispatch_def questionTest_def
        questionContent_def js_def)
  from C1_assembled_text [OF h, of example_props] v e
  have "questionContent example_state = js ''File: a.txt\<newline>\<newline>hello\<newline>\<newline>User Question: what is this?''"
    and "\<forall>c \<in> set (fst (sendQuestion example_props example_state)).
           texts_of (payload_of c) = [js ''File: a.txt\<newline>\<newline>hello\<newline>\<newline>User Question: what is this?'']"
    and "fst (sendQuestion example_props example_state) \<noteq> []"
    by blast+
  with h m e show ?thesis
    by blast
qed

subsection \<open>Refusal\<close>

text \<open>
  Claim C2. When the component is disabled, or the draft trims to the empty string and
  no document is attached (whatever the image), \<^verbatim>\<open>sendQuestion\<close> calls the callback
  not at all and returns the state it was given, every cell unchanged; so in both
  revisions.
\<close>

theorem C2_refused_send_is_noop:
  assumes "disabled p \<or> (trim (question s) = [] \<and> uploadedFile s = None)"
  shows "sendQuestion p s = ([], s) \<and> sendQuestion_part_000 p s = ([], s)"
  using assms
  by (auto simp add: sendQuestion_def sendQuestion_part_000_def truthy_string_def
      truthy_nullable_object_def)

theorem C2_refused_send_is_noop_witness:
  "trim (question blank_state) = [] \<and> uploadedFile blank_state = None
   \<and> base64Image blank_state \<noteq> None \<and> \<not> disabled example_props
   \<and> sendQuestion example_props blank_state = ([], blank_state)
   \<and> sendQuestion_part_000 example_props blank_state = ([], blank_state)"
proof -
  have t: "trim (question blank_state) = []"
    by (simp add: blank_state_def trim_def js_def isWhiteSpace_def)
  have u: "uploadedFile blank_state = None"
    by (simp add: blank_state_def)
  have "disabled example_props \<or> (trim (question blank_state) = [] \<and> uploadedFile blank_state = None)"
    using t u by simp
  from C2_refused_send_is_noop [OF this] t u show ?thesis
    by (simp add: blank_state_def example_props_def)
qed

subsection \<open>Payload shape\<close>

lemma sendQuestion_permitted:
  "\<not> sendQuestionDisabled p s \<Longrightarrow>
   sendQuestion p s =
     (dispatch p (questionTest s),
      if truthy_optional_bool (clearOnSend p)
      then s\<lparr>question := [], uploadedFile := None, base64Image := None\<rparr> else s)"
  unfolding sendQuestion_def sendQuestionDisabled_def by (simp only: if_False)

lemma sendQuestion_part_000_permitted:
  "\<not> sendQuestionDisabled p s \<Longrightarrow>
   sendQuestion_part_000 p s =
     (dispatch p (questionTest_part_000 s),
      if truthy_optional_bool (clearOnSend p)
      then s\<lparr>question := [], uploadedFile := None\<rparr> else s)"
  unfolding sendQuestion_part_000_def sendQuestionDisabled_def by (simp only: if_False)

text \<open>In the second revision no event attaches an image: from the initial state every
  run stays without one, so there the payload is always the text alone.\<close>

lemma step_part_000_base64Image: "base64Image (snd (step_part_000 p ev s)) = base64Image s"
  by (cases ev)
    (simp_all add: sendQuestion_part_000_def handleFileUpload_begin_def
      handleFileUpload_settle_def onQuestionChange_def split: option.split settled.split)

lemma run_part_000_base64Image:
  "r \<in> set (run_part_000 p evs s) \<Longrightarrow> base64Image r = base64Image s"
  by (induction evs arbitrary: s) (auto simp add: step_part_000_base64Image)

lemma part_000_never_attaches_image:
  "r \<in> set (run_part_000 p evs initial_state) \<Longrightarrow> \<not> imageAttached r"
  using run_part_000_base64Image [of r p evs initial_state]
  by (simp add: imageAttached_def initial_state_def)

text \<open>
  Claim C3. When sending is permitted and an image is attached, the one call of the
  callback that \<^verbatim>\<open>sendQuestion\<close> of \<^verbatim>\<open>QuestionInput.tsx\<close> makes carries the two-element list
  of a text part with the assembled text followed by an image part with the encoded
  image; when no image is attached it carries the assembled text alone, as a plain
  string, in both revisions; and in the second revision no run from the initial state
  ever has an image attached.
\<close>

theorem C3_payload_shape:
  assumes "\<not> sendQuestionDisabled p s"
  shows "(imageAttached s \<longrightarrow>
            (\<exists>c img. base64Image s = Some img \<and> fst (sendQuestion p s) = [c]
                \<and> payload_of c = Parts [TextPart (questionContent s), ImageUrlPart img]))
         \<and> (\<not> imageAttached s \<longrightarrow>
            (\<exists>c. fst (sendQuestion p s) = [c] \<and> payload_of c = PlainText (questionContent s)))
         \<and> (\<not> imageAttached s \<longrightarrow>
            (\<exists>c. fst (sendQuestion_part_000 p s) = [c]
                \<and> payload_of c = PlainText (questionContent s)))
         \<and> (\<forall>evs. \<forall>r \<in> set (run_part_000 p evs initial_state). \<not> imageAttached r)"
proof -
  obtain c where c: "dispatch p (questionTest s) = [c]" "payload_of c = questionTest s"
    using dispatch_single by blast
  obtain d where d: "dispatch p (questionTest_part_000 s) = [d]"
    "payload_of d = questionTest_part_000 s"
    using dispatch_single by blast
  have 1: "fst (sendQuestion p s) = [c]"
    using assms c by (simp add: sendQuestion_permitted)
  have 2: "fst (sendQuestion_part_000 p s) = [d]"
    using assms d by (simp add: sendQuestion_part_000_permitted)
  have a: "\<exists>img. base64Image s = Some img
             \<and> questionTest s = Parts [TextPart (questionContent s), ImageUrlPart img]"
    if "imageAttached s"
    using that by (cases "base64Image s") (simp_all add: imageAttached_def questionTest_def)
  have b: "questionTest s = PlainText (questionContent s)" if "\<not> imageAttached s"
    using that by (cases "base64Image s") (simp_all add: imageAttached_def questionTest_def)
  have never: "\<forall>evs. \<forall>r \<in> set (run_part_000 p evs initial_state). \<not> imageAttached r"
    using part_000_never_attaches_image by blast
  have "(imageAttached s \<longrightarrow>
            (\<exists>c img. base64Image s = Some img \<and> fst (sendQuestion p s) = [c]
                \<and> payload_of c = Parts [TextPart (questionContent s), ImageUrlPart img]))
         \<and> (\<not> imageAttached s \<longrightarrow>
            (\<exists>c. fst (sendQuestion p s) = [c] \<and> payload_of c = PlainText (questionContent s)))
         \<and> (\<not> imageAttached s \<longrightarrow>
            (\<exists>c. fst (sendQuestion_part_000 p s) = [c]
                \<and> payload_of c = PlainText (questionContent s)))"
    using 1 2 c d a b by (auto simp add: questionTest_part_000_def)
  with never show ?thesis
    by blast
qed

theorem C3_payload_shape_witness:
  "\<not> sendQuestionDisabled example_props image_state
   \<and> imageAttached image_state
   \<and> (\<exists>c. fst (sendQuestion example_props image_state) = [c]
          \<and> payload_of c = Parts [TextPart (js ''hi''), ImageUrlPart (js ''data:image/png;base64,AAAA'')])"
proof -
  have h: "\<not> sendQuestionDisabled example_props image_state"
    by (simp add: sendQuestionDisabled_def image_state_def example_props_def
        truthy_string_def trim_def js_def isWhiteSpace_def)
  have i: "base64Image image_state = Some (js ''data:image/png;base64,AAAA'')"
    by (simp add: image_state_def)
  have n: "imageAttached image_state"
    by (simp add: imageAttached_def image_state_def truthy_string_def js_def)
  have q: "questionContent image_state = js ''hi''"
    by (simp add: questionContent_def image_state_def)
  from C3_payload_shape [OF h] n
  have "\<exists>c img. base64Image image_state = Some img
          \<and> fst (sendQuestion example_props image_state) = [c]
          \<and> payload_of c = Parts [TextPart (questionContent image_state), ImageUrlPart img]"
    by blast
  with h i n q show ?thesis
    by auto
qed

subsection \<open>Dispatch arity\<close>

text \<open>
  Claim C4 as stated fails: the caller of \<open>empty_id_props\<close> supplied an identifier, the
  empty string, sending is permitted, and the callback is called with one argument.
\<close>

theorem C4_dispatch_arity_counterexample:
  "\<not> sendQuestionDisabled empty_id_props typed_state
   \<and> conversationId empty_id_props = Some []
   \<and> fst (sendQuestion empty_id_props typed_state) = [OnSend1 (PlainText (js ''hi''))]
   \<and> arity (OnSend1 (PlainText (js ''hi''))) = 1"
  by (simp add: sendQuestion_def sendQuestionDisabled_def typed_state_def empty_id_props_def
      truthy_string_def truthy_nullable_object_def trim_def js_def isWhiteSpace_def
      dispatch_def questionTest_def questionContent_def)

text \<open>
  Claim C4, amended. When sending is permitted: if the caller supplied a non-empty
  conversation identifier, \<^verbatim>\<open>sendQuestion\<close> calls the callback once with the two arguments
  payload and identifier; if the caller supplied none, it calls the callback once with
  the payload alone. So in both revisions, each with its own payload.
\<close>

theorem C4_dispatch_arity:
  assumes "\<not> sendQuestionDisabled p s"
  shows "(\<forall>cid. conversationId p = Some cid \<and> cid \<noteq> [] \<longrightarrow>
            fst (sendQuestion p s) = [OnSend2 (questionTest s) cid]
          \<and> fst (sendQuestion_part_000 p s) = [OnSend2 (questionTest_part_000 s) cid])
         \<and> (conversationId p = None \<longrightarrow>
            fst (sendQuestion p s) = [OnSend1 (questionTest s)]
          \<and> fst (sendQuestion_part_000 p s) = [OnSend1 (questionTest_part_000 s)])"
  using assms
  by (simp add: sendQuestion_permitted sendQuestion_part_000_permitted dispatch_def
      truthy_string_def)

theorem C4_dispatch_arity_witness:
  "\<not> sendQuestionDisabled example_props typed_state
   \<and> conversationId example_props = Some (js ''c1'') \<and> js ''c1'' \<noteq> []
   \<and> fst (sendQuestion example_props typed_state) = [OnSend2 (PlainText (js ''hi'')) (js ''c1'')]
   \<and> arity (OnSend2 (PlainText (js ''hi'')) (js ''c1'')) = 2"
proof -
  have h: "\<not> sendQuestionDisabled example_props typed_state"
    by (simp add: sendQuestionDisabled_def typed_state_def example_props_def
        truthy_string_def trim_def js_def isWhiteSpace_def)
  have i: "conversationId example_props = Some (js ''c1'')"
    by (simp add: example_props_def)
  have n: "js ''c1'' \<noteq> []"
    by (simp add: js_def)
  have q: "questionTest typed_state = PlainText (js ''hi'')"
    by (simp add: questionTest_def questionContent_def typed_state_def)
  from C4_dispatch_arity [OF h] i n
  have "fst (sendQuestion example_props typed_state) = [OnSend2 (questionTest typed_state) (js ''c1'')]"
    by blast
  with h i n q show ?thesis by simp
qed

text \<open>
  Claim C9. When sending is permitted and the caller supplied the empty string as the
  conversation identifier, \<^verbatim>\<open>sendQuestion\<close> calls the callback with the payload alone:
  the branch tests the truthiness of the identifier, so the call, and the whole result,
  are those of a caller that supplied no identifier. So in both revisions.
\<close>

theorem C9_empty_identifier_dropped:
  assumes "\<not> sendQuestionDisabled p s" and "conversationId p = Some []"
  shows "fst (sendQuestion p s) = [OnSend1 (questionTest s)]
         \<and> fst (sendQuestion_part_000 p s) = [OnSend1 (questionTest_part_000 s)]
         \<and> sendQuestion p s = sendQuestion (p\<lparr>conversationId := None\<rparr>) s
         \<and> sendQuestion_part_000 p s = sendQuestion_part_000 (p\<lparr>conversationId := None\<rparr>) s"
  using assms
  by (simp add: sendQuestion_def sendQuestion_part_000_def sendQuestionDisabled_def dispatch_def
      truthy_string_def)

theorem C9_empty_identifier_dropped_witness:
  "\<not> sendQuestionDisabled empty_id_props typed_state
   \<and> conversationId empty_id_props = Some []
   \<and> fst (sendQuestion empty_id_props typed_state) = [OnSend1 (PlainText (js ''hi''))]
   \<and> sendQuestion empty_id_props typed_state
       = sendQuestion (empty_id_props\<lparr>conversationId := None\<rparr>) typed_state"
proof -
  have h: "\<not> sendQuestionDisabled empty_id_props typed_state"
    by (simp add: sendQuestionDisabled_def typed_state_def empty_id_props_def
        truthy_string_def trim_def js_def isWhiteSpace_def)
  have i: "conversationId empty_id_props = Some []"
    by (simp add: empty_id_props_def)
  have q: "questionTest typed_state = PlainText (js ''hi'')"
    by (simp add: questionTest_def questionContent_def typed_state_def)
  from C9_empty_identifier_dropped [OF h i]
  have a: "fst (sendQuestion empty_id_props typed_state) = [OnSend1 (questionTest typed_state)]"
    and b: "sendQuestion empty_id_props typed_state
              = sendQuestion (empty_id_props\<lparr>conversationId := None\<rparr>) typed_state"
    by blast+
  from h i a [unfolded q] b show ?thesis
    by blast
qed

subsection \<open>Clearing after a send\<close>

lemma apply_setters_append: "apply_setters (q @ r) s = apply_setters r (apply_setters q s)"
  by (simp add: apply_setters_def)

text \<open>A step of the transition system is a run of the handler on the cells of the render,
  followed by the render that applies the queued setters.\<close>

lemma sendQuestion_is_effects_then_render:
  "sendQuestion p s = (fst (sendQuestion_effects p s), apply_setters (snd (sendQuestion_effects p s)) s)"
  by (simp add: sendQuestion_def sendQuestion_effects_def apply_setters_def)

lemma sendQuestion_part_000_is_effects_then_render:
  "sendQuestion_part_000 p s =
     (fst (sendQuestion_part_000_effects p s),
      apply_setters (snd (sendQuestion_part_000_effects p s)) s)"
  by (simp add: sendQuestion_part_000_def sendQuestion_part_000_effects_def apply_setters_def)

lemma sendQuestion_effects_permitted:
  "\<not> sendQuestionDisabled p s \<Longrightarrow>
   sendQuestion_effects p s =
     (dispatch p (questionTest s),
      if truthy_optional_bool (clearOnSend p)
      then [SetQuestion [], SetUploadedFile None, SetBase64Image None] else [])"
  unfolding sendQuestion_effects_def sendQuestionDisabled_def by (simp only: if_False)

lemma sendQuestion_part_000_effects_permitted:
  "\<not> sendQuestionDisabled p s \<Longrightarrow>
   sendQuestion_part_000_effects p s =
     (dispatch p (questionTest_part_000 s),
      if truthy_optional_bool (clearOnSend p)
      then [SetQuestion [], SetUploadedFile None] else [])"
  unfolding sendQuestion_part_000_effects_def sendQuestionDisabled_def by (simp only: if_False)

lemma blank_draft_refused:
  "question s = [] \<Longrightarrow> uploadedFile s = None \<Longrightarrow>
   sendQuestionDisabled p s \<and> sendQuestion_effects p s = ([], [])
   \<and> sendQuestion_part_000_effects p s = ([], [])"
  by (simp add: sendQuestionDisabled_def sendQuestion_effects_def
      sendQuestion_part_000_effects_def trim_def truthy_string_def truthy_nullable_object_def)

text \<open>
  Claim C5 as stated fails: the reset is not there for every read that follows the
  dispatch. After \<^verbatim>\<open>sendQuestion\<close> has run with \<^verbatim>\<open>clearOnSend\<close> on the cells of
  \<open>rendered_example\<close>, the cells of that render still hold the draft and the document,
  and a second run before the next render sends the same text again.
\<close>

theorem C5_clear_on_send_counterexample:
  "\<not> sendQuestionDisabled example_props (cells rendered_example)
   \<and> clearOnSend example_props = Some True
   \<and> fst (invoke_sendQuestion example_props rendered_example)
       = [OnSend2 (PlainText (js ''File: a.txt\<newline>\<newline>hello\<newline>\<newline>User Question: what is this?'')) (js ''c1'')]
   \<and> question (cells (snd (invoke_sendQuestion example_props rendered_example)))
       = js ''what is this?''
   \<and> js ''what is this?'' \<noteq> []
   \<and> uploadedFile (cells (snd (invoke_sendQuestion example_props rendered_example)))
       = Some example_document
   \<and> fst (invoke_sendQuestion example_props
            (snd (invoke_sendQuestion example_props rendered_example)))
       = [OnSend2 (PlainText (js ''File: a.txt\<newline>\<newline>hello\<newline>\<newline>User Question: what is this?'')) (js ''c1'')]"
  by (simp add: invoke_sendQuestion_def sendQuestion_effects_def sendQuestionDisabled_def
      rendered_example_def example_props_def example_state_def example_document_def
      truthy_nullable_object_def truthy_string_def truthy_optional_bool_def dispatch_def
      questionTest_def questionContent_def js_def)

text \<open>
  Claim C5, amended. When sending is permitted and the caller set \<^verbatim>\<open>clearOnSend\<close>, the
  run of \<^verbatim>\<open>sendQuestion\<close> that calls the callback also queues the reset, leaving the cells
  of the current render as they are; at the next render the draft is the empty string
  and no document is attached, whatever was queued before, and what is read there before
  new input is a disabled send button and a send that does nothing. So in both
  revisions.
\<close>

theorem C5_clear_on_send:
  assumes "\<not> sendQuestionDisabled p (cells c)" and "clearOnSend p = Some True"
  shows "(\<exists>calls c'. invoke_sendQuestion p c = (calls, c') \<and> calls \<noteq> []
            \<and> cells c' = cells c
            \<and> question (cells (rerender c')) = [] \<and> uploadedFile (cells (rerender c')) = None
            \<and> sendQuestionDisabled p (cells (rerender c'))
            \<and> fst (invoke_sendQuestion p (rerender c')) = [])
         \<and> (\<exists>calls c'. invoke_sendQuestion_part_000 p c = (calls, c') \<and> calls \<noteq> []
            \<and> cells c' = cells c
            \<and> question (cells (rerender c')) = [] \<and> uploadedFile (cells (rerender c')) = None
            \<and> sendQuestionDisabled p (cells (rerender c'))
            \<and> fst (invoke_sendQuestion_part_000 p (rerender c')) = [])"
proof -
  obtain k where k: "dispatch p (questionTest (cells c)) = [k]"
    using dispatch_single by blast
  obtain d where d: "dispatch p (questionTest_part_000 (cells c)) = [d]"
    using dispatch_single by blast
  let ?c1 = "c\<lparr>queued := queued c @ [SetQuestion [], SetUploadedFile None, SetBase64Image None]\<rparr>"
  let ?c2 = "c\<lparr>queued := queued c @ [SetQuestion [], SetUploadedFile None]\<rparr>"
  have 1: "invoke_sendQuestion p c = ([k], ?c1)"
    using assms k
    by (simp add: invoke_sendQuestion_def sendQuestion_effects_permitted truthy_optional_bool_def)
  have 2: "invoke_sendQuestion_part_000 p c = ([d], ?c2)"
    using assms d
    by (simp add: invoke_sendQuestion_part_000_def sendQuestion_part_000_effects_permitted
        truthy_optional_bool_def)
  have q1: "question (cells (rerender ?c1)) = [] \<and> uploadedFile (cells (rerender ?c1)) = None"
    by (simp add: rerender_def apply_setters_append) (simp add: apply_setters_def)
  have q2: "question (cells (rerender ?c2)) = [] \<and> uploadedFile (cells (rerender ?c2)) = None"
    by (simp add: rerender_def apply_setters_append) (simp add: apply_setters_def)
  have r1: "sendQuestionDisabled p (cells (rerender ?c1))
            \<and> fst (invoke_sendQuestion p (rerender ?c1)) = []"
    using q1 blank_draft_refused [of "cells (rerender ?c1)" p]
    by (simp add: invoke_sendQuestion_def)
  have r2: "sendQuestionDisabled p (cells (rerender ?c2))
            \<and> fst (invoke_sendQuestion_part_000 p (rerender ?c2)) = []"
    using q2 blank_draft_refused [of "cells (rerender ?c2)" p]
    by (simp add: invoke_sendQuestion_part_000_def)
  show ?thesis
  proof (intro conjI)
    show "\<exists>calls c'. invoke_sendQuestion p c = (calls, c') \<and> calls \<noteq> []
            \<and> cells c' = cells c
            \<and> question (cells (rerender c')) = [] \<and> uploadedFile (cells (rerender c')) = None
            \<and> sendQuestionDisabled p (cells (rerender c'))
            \<and> fst (invoke_sendQuestion p (rerender c')) = []"
      using 1 q1 r1 by simp
    show "\<exists>calls c'. invoke_sendQuestion_part_000 p c = (calls, c') \<and> calls \<noteq> []
            \<and> cells c' = cells c
            \<and> question (cells (rerender c')) = [] \<and> uploadedFile (cells (rerender c')) = None
            \<and> sendQuestionDisabled p (cells (rerender c'))
            \<and> fst (invoke_sendQuestion_part_000 p (rerender c')) = []"
      using 2 q2 r2 by simp
  qed
qed

theorem C5_clear_on_send_witness:
  "\<not> sendQuestionDisabled example_props (cells rendered_example)
   \<and> clearOnSend example_props = Some True
   \<and> question (cells rendered_example) \<noteq> [] \<and> uploadedFile (cells rendered_example) \<noteq> None
   \<and> (\<exists>calls c'. invoke_sendQuestion example_props rendered_example = (calls, c')
          \<and> calls \<noteq> []
          \<and> question (cells (rerender c')) = [] \<and> uploadedFile (cells (rerender c')) = None)"
proof -
  have h: "\<not> sendQuestionDisabled example_props (cells rendered_example)"
    by (simp add: sendQuestionDisabled_def rendered_example_def example_state_def
        example_props_def truthy_nullable_object_def)
  have c: "clearOnSend example_props = Some True"
    by (simp add: example_props_def)
  have n: "question (cells rendered_example) \<noteq> [] \<and> uploadedFile (cells rendered_example) \<noteq> None"
    by (simp add: rendered_example_def example_state_def js_def)
  from C5_clear_on_send [OF h c]
  have "\<exists>calls c'. invoke_sendQuestion example_props rendered_example = (calls, c')
          \<and> calls \<noteq> []
          \<and> question (cells (rerender c')) = [] \<and> uploadedFile (cells (rerender c')) = None"
    by blast
  with h c n show ?thesis by blast
qed

subsection \<open>The raw draft as payload\<close>

text \<open>
  Claim C6 as stated fails where the \<^verbatim>\<open>disabled\<close> prop is set: the draft of
  \<open>padded_state\<close> trims to a non-empty string, nothing is attached, and nothing is
  dispatched.
\<close>

theorem C6_raw_draft_counterexample:
  "trim (question padded_state) \<noteq> []
   \<and> uploadedFile padded_state = None \<and> base64Image padded_state = None
   \<and> fst (sendQuestion disabled_props padded_state) = []
   \<and> fst (sendQuestion_part_000 disabled_props padded_state) = []"
  by (simp add: sendQuestion_def sendQuestion_part_000_def padded_state_def disabled_props_def
      trim_def js_def isWhiteSpace_def)

text \<open>
  Claim C6, amended. When the component is not disabled, the draft has a non-empty
  trimmed form and neither a document nor an image is attached, \<^verbatim>\<open>sendQuestion\<close> calls
  the callback once, with the draft exactly as typed as the payload: the transmitted
  text is not trimmed. So in both revisions.
\<close>

theorem C6_raw_draft:
  assumes "\<not> disabled p" and "trim (question s) \<noteq> []"
    and "uploadedFile s = None" and "base64Image s = None"
  shows "(\<exists>c. fst (sendQuestion p s) = [c] \<and> payload_of c = PlainText (question s))
         \<and> (\<exists>c. fst (sendQuestion_part_000 p s) = [c] \<and> payload_of c = PlainText (question s))"
proof -
  have open_gate: "\<not> sendQuestionDisabled p s"
    using assms by (simp add: sendQuestionDisabled_def truthy_string_def)
  have q: "questionTest s = PlainText (question s)"
    "questionTest_part_000 s = PlainText (question s)"
    using assms by (simp_all add: questionTest_def questionTest_part_000_def questionContent_def)
  obtain c where c: "dispatch p (PlainText (question s)) = [c]"
    "payload_of c = PlainText (question s)"
    using dispatch_single by blast
  show ?thesis
    using open_gate q c
    by (simp add: sendQuestion_permitted sendQuestion_part_000_permitted)
qed

theorem C6_raw_draft_witness:
  "\<not> disabled example_props \<and> trim (question padded_state) = js ''hi''
   \<and> trim (question padded_state) \<noteq> []
   \<and> uploadedFile padded_state = None \<and> base64Image padded_state = None
   \<and> (\<exists>c. fst (sendQuestion example_props padded_state) = [c]
          \<and> payload_of c = PlainText (js ''  hi ''))"
proof -
  have d: "\<not> disabled example_props"
    by (simp add: example_props_def)
  have t: "trim (question padded_state) = js ''hi''"
    by (simp add: padded_state_def trim_def js_def isWhiteSpace_def)
  have n: "trim (question padded_state) \<noteq> []"
    by (simp add: t) (simp add: js_def)
  have u: "uploadedFile padded_state = None" and i: "base64Image padded_state = None"
    and q: "question padded_state = js ''  hi ''"
    by (simp_all add: padded_state_def)
  from C6_raw_draft [OF d n u i]
  have "\<exists>c. fst (sendQuestion example_props padded_state) = [c]
          \<and> payload_of c = PlainText (question padded_state)"
    by blast
  with d t n u i show ?thesis
    unfolding q by blast
qed

subsection \<open>Document upload\<close>

text \<open>
  Claim C7 as stated fails where the thrown \<^verbatim>\<open>Error\<close> carries no message: its
  \<^verbatim>\<open>message\<close> is the empty string, and that empty string, not the fallback, is what
  \<^verbatim>\<open>uploadError\<close> ends with, a falsy value for which no banner is rendered.
\<close>

theorem C7_failed_upload_counterexample:
  "empty_message_processor (Blob 0) = Rejected (ErrorInstance [])
   \<and> uploadError (handleFileUpload (Some (Blob 0)) empty_message_processor example_state)
       = Some []
   \<and> uploadError (handleFileUpload (Some (Blob 0)) empty_message_processor example_state)
       \<noteq> Some (js ''Document processing failed'')"
  by (simp add: empty_message_processor_def handleFileUpload_def handleFileUpload_settle_def
      handleFileUpload_begin_def error_text_def js_def)

text \<open>
  Claim C7, amended. When \<^verbatim>\<open>processDocumentWithAI\<close> rejects, \<^verbatim>\<open>handleFileUpload\<close> ends with
  \<^verbatim>\<open>uploadError\<close> holding the message of the thrown value if that is an instance of
  \<^verbatim>\<open>Error\<close>, whatever the message, the empty string included, and the string
  \<^verbatim>\<open>"Document processing failed"\<close> if it is not an instance of \<^verbatim>\<open>Error\<close>; with
  \<^verbatim>\<open>isUploading\<close> false; and with \<^verbatim>\<open>uploadedFile\<close> as it was before the call. The same
  holds of the part of the handler after the \<^verbatim>\<open>await\<close> taken alone, from whatever state
  it resumes in.
\<close>

theorem C7_failed_upload:
  assumes "processDocumentWithAI f = Rejected e"
  shows "(\<forall>message. e = ErrorInstance message \<longrightarrow>
            uploadError (handleFileUpload (Some f) processDocumentWithAI s) = Some message)
         \<and> (e = OtherValue \<longrightarrow>
            uploadError (handleFileUpload (Some f) processDocumentWithAI s)
              = Some (js ''Document processing failed''))
         \<and> \<not> isUploading (handleFileUpload (Some f) processDocumentWithAI s)
         \<and> uploadedFile (handleFileUpload (Some f) processDocumentWithAI s) = uploadedFile s
         \<and> (\<forall>message. e = ErrorInstance message \<longrightarrow>
            uploadError (handleFileUpload_settle (Rejected e) r) = Some message)
         \<and> (e = OtherValue \<longrightarrow>
            uploadError (handleFileUpload_settle (Rejected e) r)
              = Some (js ''Document processing failed''))
         \<and> \<not> isUploading (handleFileUpload_settle (Rejected e) r)
         \<and> uploadedFile (handleFileUpload_settle (Rejected e) r) = uploadedFile r"
  using assms
  by (simp add: handleFileUpload_def handleFileUpload_settle_def handleFileUpload_begin_def
      error_text_def)

theorem C7_failed_upload_witness:
  "failing_processor (Blob 0) = Rejected (ErrorInstance (js ''boom''))
   \<and> uploadError (handleFileUpload (Some (Blob 0)) failing_processor example_state)
       = Some (js ''boom'')
   \<and> \<not> isUploading (handleFileUpload (Some (Blob 0)) failing_processor example_state)
   \<and> uploadedFile (handleFileUpload (Some (Blob 0)) failing_processor example_state)
       = Some example_document"
proof -
  have h: "failing_processor (Blob 0) = Rejected (ErrorInstance (js ''boom''))"
    by (simp add: failing_processor_def)
  have u: "uploadedFile example_state = Some example_document"
    by (simp add: example_state_def)
  from C7_failed_upload [where processDocumentWithAI = failing_processor and f = "Blob 0"
      and s = example_state, OF h] u h
  show ?thesis
    by simp
qed

lemma sendQuestion_uploadError: "uploadError (snd (sendQuestion p s)) = uploadError s"
  by (simp add: sendQuestion_def)

lemma step_clears_uploadError:
  assumes "uploadError s \<noteq> None" and "uploadError (snd (step p ev s)) = None"
  shows "\<exists>f. ev = FileInputChange (Some f)"
proof (cases ev)
  case (ImageInputChange chosen resized)
  with assms show ?thesis
    by (simp add: handleImageUpload_def convertToBase64_def split: option.splits settled.splits)
next
  case (FileInputChange chosen)
  with assms show ?thesis
    by (cases chosen) simp_all
next
  case (DocumentSettled settled)
  with assms show ?thesis
    by (simp add: handleFileUpload_settle_def split: settled.splits)
next
  case (TextFieldChange newValue)
  with assms show ?thesis
    by (simp add: onQuestionChange_def)
next
  case (TextFieldKeyDown kev)
  with assms show ?thesis
    by (simp add: onEnterPress_def sendQuestion_uploadError split: if_splits)
next
  case SendButtonClick
  with assms show ?thesis
    by (simp add: sendQuestion_uploadError)
next
  case (SendButtonKeyDown k)
  with assms show ?thesis
    by (simp add: sendButton_onKeyDown_def sendQuestion_uploadError split: if_splits)
qed

lemma run_clears_uploadError:
  "i < length evs \<Longrightarrow> uploadError (run p evs s ! i) \<noteq> None \<Longrightarrow>
   uploadError (run p evs s ! Suc i) = None \<Longrightarrow> \<exists>f. evs ! i = FileInputChange (Some f)"
proof (induction evs arbitrary: s i)
  case Nil
  then show ?case by simp
next
  case (Cons ev evs)
  show ?case
  proof (cases i)
    case 0
    have "run p evs (snd (step p ev s)) ! 0 = snd (step p ev s)"
      by (cases evs) simp_all
    with Cons.prems 0 show ?thesis
      by (simp add: step_clears_uploadError)
  next
    case (Suc j)
    with Cons.prems Cons.IH [of j "snd (step p ev s)"] show ?thesis
      by simp
  qed
qed

text \<open>
  Claim C8. With a file present, \<^verbatim>\<open>handleFileUpload\<close> sets \<^verbatim>\<open>isUploading\<close> and clears
  \<^verbatim>\<open>uploadError\<close>, and it is in that state that \<^verbatim>\<open>processDocumentWithAI\<close> is called and
  awaited. Along every sequence of events of the component, whenever \<^verbatim>\<open>uploadError\<close> is
  set before an event and cleared after it, the event is the start of an upload with a
  file present: no send, image upload, draft edit, key press or settling upload clears
  it.
\<close>

theorem C8_uploadError_cleared_only_by_upload:
  "isUploading (handleFileUpload_begin s) \<and> uploadError (handleFileUpload_begin s) = None
   \<and> handleFileUpload (Some f) processDocumentWithAI s
       = handleFileUpload_settle (processDocumentWithAI f) (handleFileUpload_begin s)
   \<and> step p (FileInputChange (Some f)) s = ([], handleFileUpload_begin s)
   \<and> (\<forall>evs r i. i < length evs \<and> uploadError (run p evs r ! i) \<noteq> None
          \<and> uploadError (run p evs r ! Suc i) = None
        \<longrightarrow> (\<exists>g. evs ! i = FileInputChange (Some g)))"
proof (intro conjI allI impI)
  show "isUploading (handleFileUpload_begin s)"
    by (simp add: handleFileUpload_begin_def)
  show "uploadError (handleFileUpload_begin s) = None"
    by (simp add: handleFileUpload_begin_def)
  show "handleFileUpload (Some f) processDocumentWithAI s
       = handleFileUpload_settle (processDocumentWithAI f) (handleFileUpload_begin s)"
    by (simp add: handleFileUpload_def)
  show "step p (FileInputChange (Some f)) s = ([], handleFileUpload_begin s)"
    by simp
  fix evs r i
  assume "i < length evs \<and> uploadError (run p evs r ! i) \<noteq> None
          \<and> uploadError (run p evs r ! Suc i) = None"
  then show "\<exists>g. evs ! i = FileInputChange (Some g)"
    using run_clears_uploadError by blast
qed

lemma run_upload_events:
  "map uploadError (run example_props upload_events initial_state) =
     [None, None, Some (js ''Document processing failed''),
      Some (js ''Document processing failed''), Some (js ''Document processing failed''), None]"
  by (simp add: upload_events_def initial_state_def handleFileUpload_begin_def
      handleFileUpload_settle_def error_text_def onQuestionChange_def sendQuestion_uploadError)

theorem C8_uploadError_cleared_only_by_upload_witness:
  "(4::nat) < length upload_events
   \<and> uploadError (run example_props upload_events initial_state ! 4)
       = Some (js ''Document processing failed'')
   \<and> uploadError (run example_props upload_events initial_state ! Suc 4) = None
   \<and> (\<exists>g. upload_events ! 4 = FileInputChange (Some g))"
proof -
  have n: "length (run example_props upload_events initial_state) = 6"
    using arg_cong [OF run_upload_events, of length] by simp
  have l: "(4::nat) < length upload_events"
    by (simp add: upload_events_def)
  have "map uploadError (run example_props upload_events initial_state) ! 4
          = Some (js ''Document processing failed'')"
    by (simp only: run_upload_events) simp
  then have a: "uploadError (run example_props upload_events initial_state ! 4)
          = Some (js ''Document processing failed'')"
    using n by simp
  have "map uploadError (run example_props upload_events initial_state) ! Suc 4 = None"
    by (simp only: run_upload_events) simp
  then have b: "uploadError (run example_props upload_events initial_state ! Suc 4) = None"
    using n by simp
  from a have a': "uploadError (run example_props upload_events initial_state ! 4) \<noteq> None"
    by simp
  from C8_uploadError_cleared_only_by_upload [of initial_state "Blob 0" failing_processor example_props]
  have "\<forall>evs r i. i < length evs \<and> uploadError (run example_props evs r ! i) \<noteq> None
          \<and> uploadError (run example_props evs r ! Suc i) = None
        \<longrightarrow> (\<exists>g. evs ! i = FileInputChange (Some g))"
    by blast
  with l a' b have "\<exists>g. upload_events ! 4 = FileInputChange (Some g)"
    by blast
  with l a b show ?thesis
    by blast
qed

subsection \<open>The two revisions\<close>

text \<open>
  Claim C10. In every state with no image attached, \<^verbatim>\<open>sendQuestion\<close> of
  \<^verbatim>\<open>QuestionInput.tsx\<close> and \<^verbatim>\<open>sendQuestion\<close> of the second revision make the same calls of
  the callback (the same payload, the same number of arguments) and end in the same
  state, with or without \<^verbatim>\<open>clearOnSend\<close>; hence where the two differ, an image is
  attached.
\<close>

theorem C10_revisions_agree_without_image:
  "(base64Image s = None \<longrightarrow>
      sendQuestion p s = sendQuestion_part_000 p s
      \<and> map payload_of (fst (sendQuestion p s)) = map payload_of (fst (sendQuestion_part_000 p s))
      \<and> map arity (fst (sendQuestion p s)) = map arity (fst (sendQuestion_part_000 p s))
      \<and> snd (sendQuestion p s) = snd (sendQuestion_part_000 p s))
   \<and> (sendQuestion p s \<noteq> sendQuestion_part_000 p s \<longrightarrow> base64Image s \<noteq> None)"
proof -
  have eq: "sendQuestion p s = sendQuestion_part_000 p s" if none: "base64Image s = None"
  proof -
    have "questionTest s = questionTest_part_000 s"
      using none by (simp add: questionTest_def questionTest_part_000_def)
    moreover have "s\<lparr>question := [], uploadedFile := None, base64Image := None\<rparr>
        = s\<lparr>question := [], uploadedFile := None\<rparr>"
      using none by (cases s) simp
    ultimately show ?thesis
      by (simp add: sendQuestion_def sendQuestion_part_000_def)
  qed
  then show ?thesis
    by auto
qed

theorem C10_revisions_agree_without_image_witness:
  "base64Image example_state = None
   \<and> sendQuestion example_props example_state = sendQuestion_part_000 example_props example_state
   \<and> fst (sendQuestion_part_000 example_props example_state) \<noteq> []
   \<and> question (snd (sendQuestion_part_000 example_props example_state)) = []"
proof -
  have h: "base64Image example_state = None"
    by (simp add: example_state_def)
  have e: "\<not> sendQuestionDisabled example_props example_state"
    by (simp add: sendQuestionDisabled_def example_state_def example_props_def
        truthy_nullable_object_def)
  obtain d where d: "dispatch example_props (questionTest_part_000 example_state) = [d]"
    using dispatch_single by blast
  have r: "fst (sendQuestion_part_000 example_props example_state) \<noteq> []
           \<and> question (snd (sendQuestion_part_000 example_props example_state)) = []"
    using e d by (simp add: sendQuestion_part_000_permitted)
      (simp add: example_props_def truthy_optional_bool_def)
  from C10_revisions_agree_without_image [of example_state example_props] h r show ?thesis
    by blast
qed

text \<open>The second revision sends the assembled text alone, whatever the image; with an
  image attached the two revisions do differ.\<close>

lemma sendQuestion_part_000_plain:
  "\<not> sendQuestionDisabled p s \<Longrightarrow>
   \<exists>c. fst (sendQuestion_part_000 p s) = [c] \<and> payload_of c = PlainText (questionContent s)"
  using dispatch_single [of p "questionTest_part_000 s"]
  by (simp add: sendQuestion_part_000_permitted questionTest_part_000_def)

lemma revisions_differ_with_image:
  "sendQuestion example_props image_state \<noteq> sendQuestion_part_000 example_props image_state"
  by (simp add: sendQuestion_def sendQuestion_part_000_def image_state_def example_props_def
      truthy_string_def trim_def js_def isWhiteSpace_def dispatch_def questionTest_def
      questionTest_part_000_def)

end
